theory Spec2Isabelle
  imports Complex_Main
begin

section \<open>Wallet ledger (backend/wallets/models.py)\<close>

text \<open>
  Python's \<open>Decimal\<close> amounts are modelled as rationals (addition and comparison are
  exact), identifiers (UUIDs) and the string-valued choice fields as strings. Timestamps
  are left out. The database is a record of tables: users, withdrawals and campaigns
  keyed by id, and the \<open>wallet_transactions\<close> table as a list in creation order
  (\<open>objects.create\<close> appends). Calls run one after the other: row locks and concurrent
  requests are not part of the model.

  An attribute that the code reads from a module or an object that does not have it
  raises \<open>AttributeError\<close>, as in Python; the error carries Python's message.
\<close>

datatype error =
    ValueError string
  | AttributeError string
  | TypeError string
  | DoesNotExist
  | SynchronousOnlyOperation
  | ImproperlyConfigured string
  | ValidationError string
  | DatabaseError string

definition quoted :: "string \<Rightarrow> string" where
  "quoted name = [CHR 0x27] @ name @ [CHR 0x27]"

definition module_has_no_attribute :: "string \<Rightarrow> string \<Rightarrow> string" where
  "module_has_no_attribute module_name name =
     ''module '' @ quoted module_name @ '' has no attribute '' @ quoted name"

definition object_has_no_attribute :: "string \<Rightarrow> string \<Rightarrow> string" where
  "object_has_no_attribute class_name name =
     quoted class_name @ '' object has no attribute '' @ quoted name"

datatype meta = Str string | StrOfDecimal rat

record User =
  wallet_balance :: rat
  kyc_status :: string

record WalletTransaction =
  wt_user :: string
  wt_transaction_type :: string
  wt_amount :: rat
  wt_balance_before :: rat
  wt_balance_after :: rat
  wt_reference :: string
  wt_description :: string
  wt_metadata :: "(string \<times> meta) list"
  wt_status :: string

record Withdrawal =
  wd_id :: string
  wd_user :: string
  wd_amount :: rat
  wd_fee :: rat
  wd_net_amount :: rat
  wd_payment_method :: string
  wd_status :: string
  wd_payment_provider_id :: string
  wd_transaction_id :: string
  wd_admin_notes :: string
  wd_processed_by :: "string option"

record Campaign =
  c_id :: string
  c_promoter :: string
  c_title :: string
  c_status :: string
  c_total_budget :: rat
  c_reserved_funds :: rat

record db =
  users :: "string \<rightharpoonup> User"
  wallet_transactions :: "WalletTransaction list"
  withdrawals :: "string \<rightharpoonup> Withdrawal"
  campaigns :: "string \<rightharpoonup> Campaign"

text \<open>
  In \<open>wallets/models.py\<close> the name \<open>models\<close> is the module \<open>django.db.models\<close>
  (\<open>from django.db import models\<close>), which has no attribute \<open>transaction\<close>; the module
  \<open>django.db.transaction\<close> is not imported. \<open>settings.AUTH_USER_MODEL\<close> is a string,
  which has no attribute \<open>objects\<close>. The two lookups are what evaluating
  \<open>models.transaction\<close> and \<open>settings.AUTH_USER_MODEL.objects\<close> gives.
\<close>

definition models_transaction :: "error + unit" where
  "models_transaction =
     Inl (AttributeError (module_has_no_attribute ''django.db.models'' ''transaction''))"

definition AUTH_USER_MODEL_objects :: "error + unit" where
  "AUTH_USER_MODEL_objects = Inl (AttributeError (object_has_no_attribute ''str'' ''objects''))"

text \<open>
  \<open>WalletTransaction.create_transaction\<close>: its first statement is
  \<open>with models.transaction.atomic():\<close> and the first statement of the block reads
  \<open>settings.AUTH_USER_MODEL.objects\<close>. After them the body reads the user's row,
  computes the new balance, raises \<open>ValueError\<close> when it would be negative, otherwise
  creates the entry (status defaults to \<open>completed\<close>) and saves the new balance. The
  result pairs what the call returns or raises with the database after the call.
\<close>

definition create_transaction ::
  "db \<Rightarrow> string \<Rightarrow> string \<Rightarrow> rat \<Rightarrow> string \<Rightarrow> string \<Rightarrow> (string \<times> meta) list
    \<Rightarrow> (error + WalletTransaction) \<times> db" where
  "create_transaction s uid transaction_type amount reference description metadata =
     (case models_transaction of
        Inl e \<Rightarrow> (Inl e, s)
      | Inr atomic \<Rightarrow>
     (case AUTH_USER_MODEL_objects of
        Inl e \<Rightarrow> (Inl e, s)
      | Inr objects \<Rightarrow>
     (case users s uid of
        None \<Rightarrow> (Inl DoesNotExist, s)
      | Some user \<Rightarrow>
          (let balance_before = wallet_balance user;
               balance_after = balance_before + amount
           in if balance_after < 0
              then (Inl (ValueError ''Insufficient wallet balance''), s)
              else
                (let transaction =
                       \<lparr> wt_user = uid,
                         wt_transaction_type = transaction_type,
                         wt_amount = amount,
                         wt_balance_before = balance_before,
                         wt_balance_after = balance_after,
                         wt_reference = reference,
                         wt_description = description,
                         wt_metadata = metadata,
                         wt_status = ''completed'' \<rparr>
                 in (Inr transaction,
                     s\<lparr> users := (users s)(uid \<mapsto> user\<lparr>wallet_balance := balance_after\<rparr>),
                        wallet_transactions := wallet_transactions s @ [transaction] \<rparr>))))))"

section \<open>Withdrawals (backend/wallets/models.py, backend/users/models.py)\<close>

text \<open>
  A method of \<open>Withdrawal\<close> takes the object it is called on and returns what the call
  returns (the object) or raises, with the database after the call. \<open>self.save()\<close>
  writes the object to the \<open>withdrawals\<close> table. An \<open>atomic()\<close> block that raises
  leaves the database as it was when the block was entered. The setting
  \<open>KYC_REQUIRED_THRESHOLD\<close> is a parameter. \<open>Withdrawal.process\<close> opens its block with
  the same \<open>models.transaction.atomic()\<close> and \<open>settings.AUTH_USER_MODEL.objects\<close> as
  \<open>create_transaction\<close>.
\<close>

definition can_withdraw :: "rat \<Rightarrow> User \<Rightarrow> bool" where
  "can_withdraw kyc_required_threshold user =
     (kyc_status user = ''verified'' \<or> wallet_balance user < kyc_required_threshold)"

definition can_process :: "rat \<Rightarrow> Withdrawal \<Rightarrow> User \<Rightarrow> bool" where
  "can_process kyc_required_threshold w user =
     (wd_status w = ''pending'' \<and> wallet_balance user \<ge> wd_amount w
        \<and> can_withdraw kyc_required_threshold user)"

definition Withdrawal_process ::
  "rat \<Rightarrow> db \<Rightarrow> Withdrawal \<Rightarrow> string \<Rightarrow> (error + Withdrawal) \<times> db" where
  "Withdrawal_process kyc_required_threshold s w admin_user =
     (case users s (wd_user w) of
        None \<Rightarrow> (Inl DoesNotExist, s)
      | Some user \<Rightarrow>
          if \<not> can_process kyc_required_threshold w user
          then (Inl (ValueError ''Withdrawal cannot be processed''), s)
          else
            (case models_transaction of
               Inl e \<Rightarrow> (Inl e, s)
             | Inr atomic \<Rightarrow>
            (case AUTH_USER_MODEL_objects of
               Inl e \<Rightarrow> (Inl e, s)
             | Inr objects \<Rightarrow>
            (case create_transaction s (wd_user w) ''debit'' (- wd_amount w)
                    (''withdrawal_'' @ wd_id w) (''Withdrawal request '' @ wd_id w)
                    [(''withdrawal_id'', Str (wd_id w)),
                     (''payment_method'', Str (wd_payment_method w)),
                     (''fee'', StrOfDecimal (wd_fee w))] of
               (Inl e, s') \<Rightarrow> (Inl e, s)
             | (Inr t, s') \<Rightarrow>
                 (let w' = w\<lparr>wd_status := ''processing'', wd_processed_by := Some admin_user\<rparr>
                  in (Inr w', s'\<lparr>withdrawals := (withdrawals s')(wd_id w \<mapsto> w')\<rparr>))))))"

definition or_empty :: "string option \<Rightarrow> string" where
  "or_empty x = (case x of None \<Rightarrow> '''' | Some v \<Rightarrow> v)"

definition Withdrawal_complete ::
  "db \<Rightarrow> Withdrawal \<Rightarrow> string option \<Rightarrow> string option \<Rightarrow> (error + Withdrawal) \<times> db" where
  "Withdrawal_complete s w payment_provider_id transaction_id =
     (if wd_status w \<noteq> ''processing''
      then (Inl (ValueError ''Withdrawal must be processing to complete''), s)
      else
        (let w' = w\<lparr>wd_status := ''completed'',
                     wd_payment_provider_id := or_empty payment_provider_id,
                     wd_transaction_id := or_empty transaction_id\<rparr>
         in (Inr w', s\<lparr>withdrawals := (withdrawals s)(wd_id w \<mapsto> w')\<rparr>)))"

text \<open>
  \<open>Withdrawal.fail\<close> saves the failed status first and then calls
  \<open>create_transaction\<close> outside any \<open>atomic()\<close> block: when that call raises, the saved
  status stays.
\<close>

definition Withdrawal_fail :: "db \<Rightarrow> Withdrawal \<Rightarrow> string \<Rightarrow> (error + Withdrawal) \<times> db" where
  "Withdrawal_fail s w reason =
     (if wd_status w \<notin> set [''pending'', ''processing'']
      then (Inl (ValueError ''Withdrawal must be pending or processing to fail''), s)
      else
        (let w' = w\<lparr>wd_status := ''failed'', wd_admin_notes := reason\<rparr>;
             s1 = s\<lparr>withdrawals := (withdrawals s)(wd_id w \<mapsto> w')\<rparr>
         in (case create_transaction s1 (wd_user w) ''refund'' (wd_amount w)
                    (''withdrawal_refund_'' @ wd_id w)
                    (''Refund for failed withdrawal '' @ wd_id w)
                    [(''withdrawal_id'', Str (wd_id w)), (''reason'', Str reason)] of
               (Inl e, s2) \<Rightarrow> (Inl e, s2)
             | (Inr t, s2) \<Rightarrow> (Inr w', s2))))"

section \<open>Funding a campaign (backend/campaigns/views.py)\<close>

text \<open>
  \<open>CampaignViewSet.fund\<close> writes the ledger row itself. \<open>request.user\<close> is the user
  object of the request, given here by its id and its fields; the response is its HTTP
  status and message. The \<open>except\<close> branch, which answers an exception of a database
  call with status 500, has no counterpart: the writes of the model do not raise.
\<close>

definition fund :: "db \<Rightarrow> string \<Rightarrow> User \<Rightarrow> Campaign \<Rightarrow> (nat \<times> string) \<times> db" where
  "fund s request_user_id request_user campaign =
     (if c_promoter campaign \<noteq> request_user_id
      then ((403, ''You can only fund your own campaigns''), s)
      else if c_status campaign \<noteq> ''draft''
      then ((400, ''Only draft campaigns can be funded''), s)
      else
        (let user_balance = wallet_balance request_user
         in if user_balance < c_total_budget campaign
            then ((400, ''Insufficient wallet balance''), s)
            else
              (let transaction =
                     \<lparr> wt_user = request_user_id,
                       wt_transaction_type = ''hold'',
                       wt_amount = c_total_budget campaign,
                       wt_balance_before = user_balance,
                       wt_balance_after = user_balance - c_total_budget campaign,
                       wt_reference = ''CAMPAIGN_FUND_'' @ c_id campaign,
                       wt_description = ''Fund campaign: '' @ c_title campaign,
                       wt_metadata = [(''campaign_id'', Str (c_id campaign))],
                       wt_status = ''completed'' \<rparr>;
                   campaign' = campaign\<lparr>c_reserved_funds := c_total_budget campaign,
                                         c_status := ''active''\<rparr>
               in ((200, ''Campaign funded successfully''),
                   s\<lparr> users := (users s)(request_user_id \<mapsto>
                          request_user\<lparr>wallet_balance :=
                            wallet_balance request_user - c_total_budget campaign\<rparr>),
                      wallet_transactions := wallet_transactions s @ [transaction],
                      campaigns := (campaigns s)(c_id campaign \<mapsto> campaign') \<rparr>))))"

section \<open>Crediting an approved job (backend/verification/services.py, backend/jobs/models.py)\<close>

text \<open>
  Values of JSON fields and of result dictionaries. A job attempt is given with the
  fields of its job's campaign that the code reads; \<open>proof_data\<close> is a dictionary,
  here a list of keys and values read with \<open>map_of\<close>.
\<close>

datatype json = JStr string | JNum rat | JBool bool | JStrs "string list"

record JobAttempt =
  ja_id :: string
  ja_earner :: string
  ja_job_id :: string
  ja_campaign_id :: string
  ja_platform :: string
  ja_engagement_type :: string
  ja_proof_data :: "(string \<times> json) list"

text \<open>
  \<open>reward_amount\<close> is a field of \<open>Job\<close>, and \<open>created_at\<close> a field of \<open>Job\<close> and of
  \<open>Campaign\<close>; the model \<open>JobAttempt\<close> (\<open>jobs/models.py\<close>) declares neither (its
  timestamps are \<open>submitted_at\<close> and \<open>verified_at\<close>), so reading them from a job
  attempt raises.
\<close>

definition JobAttempt_reward_amount :: "JobAttempt \<Rightarrow> error + rat" where
  "JobAttempt_reward_amount job_attempt =
     Inl (AttributeError (object_has_no_attribute ''JobAttempt'' ''reward_amount''))"

definition JobAttempt_created_at :: "JobAttempt \<Rightarrow> error + rat" where
  "JobAttempt_created_at job_attempt =
     Inl (AttributeError (object_has_no_attribute ''JobAttempt'' ''created_at''))"

text \<open>
  \<open>ManualReviewService._process_approved_job\<close> evaluates the arguments of
  \<open>create_transaction\<close>, among them \<open>job_attempt.reward_amount\<close>, and calls it, all
  inside \<open>try ... except Exception\<close>: an error is logged and the method returns
  normally.
\<close>

definition process_approved_job :: "db \<Rightarrow> JobAttempt \<Rightarrow> db" where
  "process_approved_job s job_attempt =
     (case JobAttempt_reward_amount job_attempt of
        Inl e \<Rightarrow> s
      | Inr reward_amount \<Rightarrow>
          (case create_transaction s (ja_earner job_attempt) ''credit'' reward_amount
                  (''job_completion_'' @ ja_job_id job_attempt)
                  (''Payment for completing job '' @ ja_job_id job_attempt)
                  [(''job_id'', Str (ja_job_id job_attempt)),
                   (''job_attempt_id'', Str (ja_id job_attempt)),
                   (''campaign_id'', Str (ja_campaign_id job_attempt))] of
             (Inl e, s') \<Rightarrow> s'
           | (Inr t, s') \<Rightarrow> s'))"

section \<open>Verification rules and method adapters (backend/verification)\<close>

text \<open>
  A Python float is given by the expression that computes it from literals; float
  arithmetic is not evaluated, so nothing is said about rounding. Where the code compares
  two floats the comparison is the parameter \<open>float_ge\<close> of the world below.
\<close>

datatype pyfloat =
    FLit rat
  | FAdd pyfloat pyfloat
  | FSub pyfloat pyfloat
  | FDiv pyfloat nat
  | FMax pyfloat pyfloat

text \<open>
  A row of \<open>VerificationRule\<close> (\<open>verification/models.py\<close>) with its three threshold
  columns; \<open>timeout_seconds\<close>, \<open>retry_attempts\<close> and \<open>platform_settings\<close>, which no
  function below reads, are left out. The model declares no \<open>pass_threshold\<close> and no
  \<open>manual_review_threshold\<close>: reading them from a rule raises.
\<close>

record VerificationRule =
  vr_platform :: string
  vr_engagement_type :: string
  verification_methods :: "string list"
  min_confidence_score :: pyfloat
  auto_approve_threshold :: pyfloat
  auto_reject_threshold :: pyfloat
  is_active :: bool

definition rule_pass_threshold :: "VerificationRule \<Rightarrow> error + pyfloat" where
  "rule_pass_threshold rule =
     Inl (AttributeError (object_has_no_attribute ''VerificationRule'' ''pass_threshold''))"

definition rule_manual_review_threshold :: "VerificationRule \<Rightarrow> error + pyfloat" where
  "rule_manual_review_threshold rule =
     Inl (AttributeError
            (object_has_no_attribute ''VerificationRule'' ''manual_review_threshold''))"

text \<open>
  What lies outside the program. Database calls made from the coroutine raise
  \<open>SynchronousOnlyOperation\<close> unless the process allows unsafe synchronous calls
  (\<open>DJANGO_ALLOW_ASYNC_UNSAFE\<close>); a database write can fail with a message; the
  comparisons with the clock have an outcome; \<open>hashlib.sha256\<close> is a function; the
  scoring service answers a request or the transport fails. The related objects of a job
  attempt (job, campaign, earner) are loaded.
\<close>

record ml_body =
  mb_confidence :: "pyfloat option"
  mb_fraud_indicators :: "string list option"
  mb_evidence :: "(string \<times> json) list option"

datatype http_outcome = TransportError string | Response nat ml_body

record world =
  async_unsafe_allowed :: bool
  session_create_error :: "string option"
  session_save_error :: "string option"
  attempt_save_error :: "string option"
  proof_older_than_hour :: bool
  token_older_than_5_minutes :: bool
  sha256_hexdigest :: "string \<Rightarrow> string"
  post_verify_attempt :: http_outcome
  float_ge :: "pyfloat \<Rightarrow> pyfloat \<Rightarrow> bool"

record method_result =
  r_method :: string
  r_confidence :: pyfloat
  r_fraud_indicators :: "string list"
  r_evidence :: "(string \<times> json) list"

datatype adapter_outcome = Raises error | Returns method_result

text \<open>
  Operations of Python on JSON values: subtraction from a float needs a number (a bool is
  one), \<open>len\<close> needs a string or a list, \<open>startswith\<close> and \<open>encode\<close> need a string.
\<close>

fun type_name :: "json \<Rightarrow> string" where
  "type_name (JStr v) = ''str''"
| "type_name (JNum v) = ''float''"
| "type_name (JBool v) = ''bool''"
| "type_name (JStrs v) = ''list''"

fun is_number :: "json \<Rightarrow> bool" where
  "is_number (JNum v) = True"
| "is_number (JBool v) = True"
| "is_number (JStr v) = False"
| "is_number (JStrs v) = False"

fun json_len :: "json \<Rightarrow> error + nat" where
  "json_len (JStr v) = Inr (length v)"
| "json_len (JStrs v) = Inr (length v)"
| "json_len (JNum v) = Inl (TypeError ''object of type float has no len()'')"
| "json_len (JBool v) = Inl (TypeError ''object of type bool has no len()'')"

definition startswith :: "string \<Rightarrow> string \<Rightarrow> bool" where
  "startswith s p = (take (length p) s = p)"

fun join :: "string \<Rightarrow> string list \<Rightarrow> string" where
  "join sep [] = []"
| "join sep [x] = x"
| "join sep (x # y # ys) = x @ sep @ join sep (y # ys)"

subsection \<open>\<open>_deterministic_check\<close>\<close>

text \<open>
  The check keeps a list of fraud indicators and a confidence that starts at 0.8; each
  of its four tests can add an indicator and subtract from the confidence. The three
  later tests read values of the proof data and raise on a value of the wrong type.
\<close>

definition check_timestamp ::
  "world \<Rightarrow> (string \<times> json) list \<Rightarrow> string list \<times> pyfloat
     \<Rightarrow> error + string list \<times> pyfloat" where
  "check_timestamp w proof_data acc =
     (case map_of proof_data ''timestamp'' of
        None \<Rightarrow> Inr acc
      | Some timestamp \<Rightarrow>
          if \<not> is_number timestamp
          then Inl (TypeError (''unsupported operand type(s) for -: float and ''
                                @ type_name timestamp))
          else if proof_older_than_hour w
          then Inr (fst acc @ [''proof_timestamp_too_old''], FSub (snd acc) (FLit (2 / 10)))
          else Inr acc)"

definition check_url ::
  "JobAttempt \<Rightarrow> string list \<times> pyfloat \<Rightarrow> error + string list \<times> pyfloat" where
  "check_url job_attempt acc =
     (if ja_engagement_type job_attempt = ''visit''
      then
        (case map_of (ja_proof_data job_attempt) ''url'' of
           None \<Rightarrow> Inr acc
         | Some (JStr url) \<Rightarrow>
             if \<not> (startswith url ''http://'' \<or> startswith url ''https://'')
             then Inr (fst acc @ [''invalid_url_format''], FSub (snd acc) (FLit (3 / 10)))
             else Inr acc
         | Some v \<Rightarrow> Inl (AttributeError (object_has_no_attribute (type_name v) ''startswith'')))
      else Inr acc)"

definition check_post_id ::
  "JobAttempt \<Rightarrow> string list \<times> pyfloat \<Rightarrow> error + string list \<times> pyfloat" where
  "check_post_id job_attempt acc =
     (if ja_platform job_attempt \<in> set [''instagram'', ''twitter'', ''facebook'']
      then
        (case map_of (ja_proof_data job_attempt) ''post_id'' of
           None \<Rightarrow> Inr acc
         | Some post_id \<Rightarrow>
             (case json_len post_id of
                Inl e \<Rightarrow> Inl e
              | Inr n \<Rightarrow>
                  if n < 10
                  then Inr (fst acc @ [''suspicious_post_id''], FSub (snd acc) (FLit (2 / 10)))
                  else Inr acc))
      else Inr acc)"

definition deterministic_check :: "world \<Rightarrow> JobAttempt \<Rightarrow> adapter_outcome" where
  "deterministic_check w job_attempt =
     (let proof_data = ja_proof_data job_attempt;
          acc0 = (if proof_data = []
                  then ([''missing_proof_data''], FSub (FLit (8 / 10)) (FLit (5 / 10)))
                  else ([], FLit (8 / 10)))
      in case check_timestamp w proof_data acc0 of
           Inl e \<Rightarrow> Raises e
         | Inr acc1 \<Rightarrow>
        (case check_url job_attempt acc1 of
           Inl e \<Rightarrow> Raises e
         | Inr acc2 \<Rightarrow>
        (case check_post_id job_attempt acc2 of
           Inl e \<Rightarrow> Raises e
         | Inr acc3 \<Rightarrow>
             Returns \<lparr> r_method = ''deterministic'',
                       r_confidence = FMax (FLit 0) (snd acc3),
                       r_fraud_indicators = fst acc3,
                       r_evidence =
                         [(''proof_data_present'', JBool (proof_data \<noteq> [])),
                          (''timestamp_valid'', JBool (map_of proof_data ''timestamp'' \<noteq> None)),
                          (''data_structure_valid'', JBool (length proof_data > 0))] \<rparr>)))"

subsection \<open>\<open>_tokenized_verification\<close>\<close>

definition check_token_hash ::
  "world \<Rightarrow> (string \<times> json) list \<Rightarrow> json \<Rightarrow> string list \<times> pyfloat
     \<Rightarrow> error + string list \<times> pyfloat" where
  "check_token_hash w proof_data token acc =
     (case map_of proof_data ''token_hash'' of
        None \<Rightarrow> Inr acc
      | Some provided_hash \<Rightarrow>
          (case token of
             JStr t \<Rightarrow>
               if JStr (sha256_hexdigest w t) \<noteq> provided_hash
               then Inr (fst acc @ [''token_hash_mismatch''], FSub (snd acc) (FLit (4 / 10)))
               else Inr acc
           | v \<Rightarrow> Inl (AttributeError (object_has_no_attribute (type_name v) ''encode''))))"

definition check_token_timestamp ::
  "world \<Rightarrow> (string \<times> json) list \<Rightarrow> string list \<times> pyfloat
     \<Rightarrow> error + string list \<times> pyfloat" where
  "check_token_timestamp w proof_data acc =
     (case map_of proof_data ''token_timestamp'' of
        None \<Rightarrow> Inr acc
      | Some token_time \<Rightarrow>
          if \<not> is_number token_time
          then Inl (TypeError (''unsupported operand type(s) for -: float and ''
                                @ type_name token_time))
          else if token_older_than_5_minutes w
          then Inr (fst acc @ [''token_expired''], FSub (snd acc) (FLit (2 / 10)))
          else Inr acc)"

definition tokenized_verification :: "world \<Rightarrow> JobAttempt \<Rightarrow> adapter_outcome" where
  "tokenized_verification w job_attempt =
     (let proof_data = ja_proof_data job_attempt
      in case map_of proof_data ''token'' of
           None \<Rightarrow>
             Returns \<lparr> r_method = ''tokenized'',
                       r_confidence = FMax (FLit 0) (FSub (FLit (7 / 10)) (FLit (5 / 10))),
                       r_fraud_indicators = [''missing_verification_token''],
                       r_evidence = [(''token_present'', JBool False)] \<rparr>
         | Some token \<Rightarrow>
             (case json_len token of
                Inl e \<Rightarrow> Raises e
              | Inr n \<Rightarrow>
                  (let acc1 = (if n < 20
                               then ([''token_too_short''], FSub (FLit (7 / 10)) (FLit (3 / 10)))
                               else ([], FLit (7 / 10)))
                   in case check_token_hash w proof_data token acc1 of
                        Inl e \<Rightarrow> Raises e
                      | Inr acc2 \<Rightarrow>
                     (case check_token_timestamp w proof_data acc2 of
                        Inl e \<Rightarrow> Raises e
                      | Inr acc3 \<Rightarrow>
                          Returns \<lparr> r_method = ''tokenized'',
                                    r_confidence = FMax (FLit 0) (snd acc3),
                                    r_fraud_indicators = fst acc3,
                                    r_evidence =
                                      [(''token_present'', JBool True),
                                       (''token_length'', JNum (of_nat n)),
                                       (''has_hash'',
                                          JBool (map_of proof_data ''token_hash'' \<noteq> None)),
                                       (''has_timestamp'',
                                          JBool (map_of proof_data ''token_timestamp''
                                                   \<noteq> None))] \<rparr>))))"

subsection \<open>\<open>_headless_browser_check\<close>\<close>

definition headless_browser_check :: "world \<Rightarrow> JobAttempt \<Rightarrow> adapter_outcome" where
  "headless_browser_check w job_attempt =
     (let missing_fields =
            filter (\<lambda>field. map_of (ja_proof_data job_attempt) field = None)
              [''url'', ''post_id'', ''account_username'']
      in Returns \<lparr> r_method = ''headless'',
                   r_confidence =
                     FMax (FLit 0)
                       (if missing_fields \<noteq> [] then FSub (FLit (6 / 10)) (FLit (3 / 10))
                        else FLit (6 / 10)),
                   r_fraud_indicators =
                     (if missing_fields \<noteq> []
                      then [''missing_fields: '' @ join '', '' missing_fields]
                      else []),
                   r_evidence =
                     [(''required_fields_present'', JBool (length missing_fields = 0)),
                      (''missing_fields'', JStrs missing_fields)] \<rparr>)"

subsection \<open>\<open>_screenshot_analysis\<close> and \<open>_ml_verification\<close>\<close>

text \<open>
  Both build the request inside \<open>try ... except Exception\<close> and answer an exception with
  confidence 0.0, an indicator and the error as evidence. The request's metadata read
  \<open>job_attempt.created_at\<close> before the request is sent.
\<close>

fun str_of_error :: "error \<Rightarrow> string" where
  "str_of_error (ValueError msg) = msg"
| "str_of_error (AttributeError msg) = msg"
| "str_of_error (TypeError msg) = msg"
| "str_of_error DoesNotExist = ''VerificationRule matching query does not exist.''"
| "str_of_error SynchronousOnlyOperation =
     ''You cannot call this from an async context - use a thread or sync_to_async.''"
| "str_of_error (ImproperlyConfigured msg) = msg"
| "str_of_error (ValidationError msg) = msg"
| "str_of_error (DatabaseError msg) = msg"

definition failed_result :: "string \<Rightarrow> string \<Rightarrow> (string \<times> json) list \<Rightarrow> adapter_outcome" where
  "failed_result method indicator evidence =
     Returns \<lparr> r_method = method, r_confidence = FLit 0,
               r_fraud_indicators = [indicator], r_evidence = evidence \<rparr>"

definition ml_request :: "world \<Rightarrow> JobAttempt \<Rightarrow> string \<Rightarrow> string \<Rightarrow> adapter_outcome" where
  "ml_request w job_attempt method failure_indicator =
     (case JobAttempt_created_at job_attempt of
        Inl e \<Rightarrow> failed_result method failure_indicator [(''error'', JStr (str_of_error e))]
      | Inr created_at \<Rightarrow>
          (case post_verify_attempt w of
             TransportError msg \<Rightarrow>
               failed_result method failure_indicator [(''error'', JStr msg)]
           | Response status_code ml_result \<Rightarrow>
               if status_code = 200
               then Returns
                      \<lparr> r_method = method,
                        r_confidence =
                          (case mb_confidence ml_result of None \<Rightarrow> FLit 0 | Some c \<Rightarrow> c),
                        r_fraud_indicators =
                          (case mb_fraud_indicators ml_result of None \<Rightarrow> [] | Some fi \<Rightarrow> fi),
                        r_evidence =
                          (case mb_evidence ml_result of None \<Rightarrow> [] | Some ev \<Rightarrow> ev) \<rparr>
               else failed_result method ''ml_service_error''
                      [(''ml_service_status'', JNum (of_nat status_code))]))"

definition screenshot_analysis :: "world \<Rightarrow> JobAttempt \<Rightarrow> adapter_outcome" where
  "screenshot_analysis w job_attempt =
     (if map_of (ja_proof_data job_attempt) ''screenshot_url'' = None
      then failed_result ''screenshot'' ''no_screenshot_provided''
             [(''screenshot_present'', JBool False)]
      else ml_request w job_attempt ''screenshot'' ''screenshot_analysis_failed'')"

definition ml_verification :: "world \<Rightarrow> JobAttempt \<Rightarrow> adapter_outcome" where
  "ml_verification w job_attempt =
     ml_request w job_attempt ''ml'' ''ml_verification_failed''"

section \<open>Verification pipeline (backend/verification/services.py)\<close>

text \<open>
  The \<open>if ... elif\<close> chain of the loop body: \<open>None\<close> is the final \<open>else\<close> (unknown
  method, \<open>continue\<close>), which also takes the method name \<open>manual\<close>.
\<close>

definition call_method :: "world \<Rightarrow> JobAttempt \<Rightarrow> string \<Rightarrow> adapter_outcome option" where
  "call_method w job_attempt method =
     (if method = ''deterministic'' then Some (deterministic_check w job_attempt)
      else if method = ''tokenized'' then Some (tokenized_verification w job_attempt)
      else if method = ''screenshot'' then Some (screenshot_analysis w job_attempt)
      else if method = ''headless'' then Some (headless_browser_check w job_attempt)
      else if method = ''ml'' then Some (ml_verification w job_attempt)
      else None)"

text \<open>
  The local variables of \<open>_run_verification_pipeline\<close>. \<open>executed\<close> is not a variable
  of the source: it records, in order, the methods whose adapter was called.
\<close>

record pipeline_state =
  results :: "method_result list"
  overall_confidence :: pyfloat
  fraud_indicators :: "string list"
  evidence :: "string \<rightharpoonup> (string \<times> json) list"
  executed :: "string list"

definition initial_state :: pipeline_state where
  "initial_state =
     \<lparr> results = [], overall_confidence = FLit 0, fraud_indicators = [],
       evidence = Map.empty, executed = [] \<rparr>"

definition record_result :: "string \<Rightarrow> method_result \<Rightarrow> pipeline_state \<Rightarrow> pipeline_state" where
  "record_result method result st =
     st\<lparr> results := results st @ [result],
         overall_confidence := FAdd (overall_confidence st) (r_confidence result),
         fraud_indicators :=
           (if r_fraud_indicators result \<noteq> []
            then fraud_indicators st @ r_fraud_indicators result
            else fraud_indicators st),
         evidence :=
           (if r_evidence result \<noteq> []
            then (evidence st)(method \<mapsto> r_evidence result)
            else evidence st),
         executed := executed st @ [method] \<rparr>"

text \<open>
  The \<open>for\<close> loop over \<open>rule.verification_methods\<close>. The whole body is inside
  \<open>try ... except Exception\<close>: an adapter that raises is logged and the loop continues.
  The test of the \<open>break\<close> reads \<open>rule.pass_threshold\<close> after the result has been
  recorded; when that read raises, the exception is logged like any other and the loop
  continues with what was recorded.
\<close>

fun run_methods ::
  "world \<Rightarrow> JobAttempt \<Rightarrow> VerificationRule \<Rightarrow> string list \<Rightarrow> pipeline_state
     \<Rightarrow> pipeline_state" where
  "run_methods w ja rule [] st = st"
| "run_methods w ja rule (method # rest) st =
     (case call_method w ja method of
        None \<Rightarrow> run_methods w ja rule rest st
      | Some (Raises e) \<Rightarrow>
          run_methods w ja rule rest (st\<lparr>executed := executed st @ [method]\<rparr>)
      | Some (Returns result) \<Rightarrow>
          (let st' = record_result method result st
           in case rule_pass_threshold rule of
                Inl e \<Rightarrow> run_methods w ja rule rest st'
              | Inr pass \<Rightarrow>
                  if float_ge w (r_confidence result) pass then st'
                  else run_methods w ja rule rest st'))"

definition pipeline_loop :: "world \<Rightarrow> JobAttempt \<Rightarrow> VerificationRule \<Rightarrow> pipeline_state" where
  "pipeline_loop w ja rule = run_methods w ja rule (verification_methods rule) initial_state"

datatype reasoning =
    NoMethodsSuccessful
  | Reasoning nat pyfloat "string list" string

definition generate_reasoning ::
  "world \<Rightarrow> method_result list \<Rightarrow> pyfloat \<Rightarrow> string list \<Rightarrow> reasoning" where
  "generate_reasoning w rs confidence indicators =
     (if rs = [] then NoMethodsSuccessful
      else Reasoning (length rs) confidence indicators
             (if float_ge w confidence (FLit (8 / 10))
              then ''High confidence verification passed.''
              else if float_ge w confidence (FLit (6 / 10))
              then ''Medium confidence - manual review recommended.''
              else ''Low confidence - verification failed.''))"

record pipeline_result =
  pr_status :: string
  pr_confidence :: pyfloat
  pr_ai_score :: pyfloat
  pr_verification_methods :: "string list"
  pr_fraud_indicators :: "string list"
  pr_evidence :: "string \<rightharpoonup> (string \<times> json) list"
  pr_reasoning :: reasoning

definition final_confidence :: "pipeline_state \<Rightarrow> pyfloat" where
  "final_confidence st =
     (if results st \<noteq> [] then FDiv (overall_confidence st) (length (results st))
      else overall_confidence st)"

text \<open>
  The \<open>if ... elif ... else\<close> that determines the status reads \<open>rule.pass_threshold\<close>
  and then \<open>rule.manual_review_threshold\<close>, outside any \<open>try\<close>.
\<close>

definition final_status :: "world \<Rightarrow> VerificationRule \<Rightarrow> pyfloat \<Rightarrow> error + string" where
  "final_status w rule confidence =
     (case rule_pass_threshold rule of
        Inl e \<Rightarrow> Inl e
      | Inr pass \<Rightarrow>
          if float_ge w confidence pass then Inr ''verified''
          else
            (case rule_manual_review_threshold rule of
               Inl e \<Rightarrow> Inl e
             | Inr manual \<Rightarrow>
                 if float_ge w confidence manual then Inr ''manual_review''
                 else Inr ''rejected''))"

definition run_verification_pipeline ::
  "world \<Rightarrow> JobAttempt \<Rightarrow> VerificationRule \<Rightarrow> error + pipeline_result" where
  "run_verification_pipeline w ja rule =
     (let st = pipeline_loop w ja rule;
          confidence = final_confidence st
      in case final_status w rule confidence of
           Inl e \<Rightarrow> Inl e
         | Inr status \<Rightarrow>
             Inr \<lparr> pr_status = status,
                   pr_confidence = confidence,
                   pr_ai_score = confidence,
                   pr_verification_methods = verification_methods rule,
                   pr_fraud_indicators = fraud_indicators st,
                   pr_evidence = evidence st,
                   pr_reasoning =
                     generate_reasoning w (results st) confidence (fraud_indicators st) \<rparr>)"

section \<open>Verifying a job attempt (backend/verification/services.py)\<close>

text \<open>
  The rule table is keyed by platform and engagement type (\<open>unique_together\<close>).
  \<open>_get_verification_rule\<close> is \<open>objects.get\<close> for the active rule of a key: a missing
  row is \<open>DoesNotExist\<close>, which the method turns into \<open>None\<close>; it does not catch
  \<open>SynchronousOnlyOperation\<close>.
\<close>

definition get_verification_rule ::
  "world \<Rightarrow> (string \<times> string \<rightharpoonup> VerificationRule) \<Rightarrow> string \<Rightarrow> string
     \<Rightarrow> error + VerificationRule option" where
  "get_verification_rule w rules platform engagement_type =
     (if \<not> async_unsafe_allowed w then Inl SynchronousOnlyOperation
      else
        (case rules (platform, engagement_type) of
           None \<Rightarrow> Inr None
         | Some rule \<Rightarrow> if is_active rule then Inr (Some rule) else Inr None))"

text \<open>
  The session row. The method also sets \<open>ai_score\<close>, \<open>confidence\<close>, \<open>reasoning\<close> and
  \<open>evidence\<close> on the session object; \<open>VerificationSession\<close> has no such columns and
  \<open>save()\<close> writes none of them.
\<close>

record VerificationSession =
  vs_job_attempt :: string
  vs_verification_rule :: VerificationRule
  vs_status :: string

text \<open>
  What \<open>verify_job_attempt\<close> returns: the dictionary of the pipeline, or the dictionary
  with the keys \<open>status\<close>, \<open>reason\<close> and \<open>confidence\<close>.
\<close>

datatype verify_result =
    PipelineResult pipeline_result
  | FailureResult string string pyfloat

fun result_status :: "verify_result \<Rightarrow> string" where
  "result_status (PipelineResult r) = pr_status r"
| "result_status (FailureResult status reason confidence) = status"

fun result_confidence :: "verify_result \<Rightarrow> pyfloat" where
  "result_confidence (PipelineResult r) = pr_confidence r"
| "result_confidence (FailureResult status reason confidence) = confidence"

text \<open>
  The body of the \<open>try\<close>. \<open>_handle_fraud_detection\<close> and \<open>_add_to_manual_review\<close>
  catch every exception themselves and return nothing, so they do not appear. The second
  component is the session row as last saved.
\<close>

definition verify_body ::
  "world \<Rightarrow> (string \<times> string \<rightharpoonup> VerificationRule) \<Rightarrow> JobAttempt
     \<Rightarrow> (error + verify_result) \<times> VerificationSession option" where
  "verify_body w rules job_attempt =
     (case get_verification_rule w rules (ja_platform job_attempt)
             (ja_engagement_type job_attempt) of
        Inl e \<Rightarrow> (Inl e, None)
      | Inr None \<Rightarrow>
          (Inr (FailureResult ''failed'' ''No verification rule found'' (FLit 0)), None)
      | Inr (Some verification_rule) \<Rightarrow>
          (case session_create_error w of
             Some msg \<Rightarrow> (Inl (DatabaseError msg), None)
           | None \<Rightarrow>
               (let session = \<lparr> vs_job_attempt = ja_id job_attempt,
                                vs_verification_rule = verification_rule,
                                vs_status = ''pending'' \<rparr>
                in case run_verification_pipeline w job_attempt verification_rule of
                     Inl e \<Rightarrow> (Inl e, Some session)
                   | Inr result \<Rightarrow>
                       (let session' = session\<lparr>vs_status := pr_status result\<rparr>
                        in case session_save_error w of
                             Some msg \<Rightarrow> (Inl (DatabaseError msg), Some session)
                           | None \<Rightarrow>
                               (case attempt_save_error w of
                                  Some msg \<Rightarrow> (Inl (DatabaseError msg), Some session')
                                | None \<Rightarrow> (Inr (PipelineResult result), Some session'))))))"

text \<open>The \<open>try ... except Exception\<close> around the whole body.\<close>

definition verify_job_attempt ::
  "world \<Rightarrow> (string \<times> string \<rightharpoonup> VerificationRule) \<Rightarrow> JobAttempt
     \<Rightarrow> (error + verify_result) \<times> VerificationSession option" where
  "verify_job_attempt w rules job_attempt =
     (case verify_body w rules job_attempt of
        (Inl e, saved) \<Rightarrow> (Inr (FailureResult ''failed'' (str_of_error e) (FLit 0)), saved)
      | (Inr result, saved) \<Rightarrow> (Inr result, saved))"

section \<open>Writing verification rules (backend/verification/serializers.py, views.py)\<close>

text \<open>
  The data of a write request: the method list and the numeric fields by name, each
  number given by the decimal value that was sent. \<open>data.get(key, default)\<close> is
  \<open>get_default\<close>.
\<close>

record rule_data =
  d_platform :: string
  d_engagement_type :: string
  d_verification_methods :: "string list"
  d_numbers :: "string \<rightharpoonup> real"

definition get_default :: "(string \<rightharpoonup> real) \<Rightarrow> string \<Rightarrow> real \<Rightarrow> real" where
  "get_default d key dflt = (case d key of None \<Rightarrow> dflt | Some v \<Rightarrow> v)"

fun validate_verification_methods :: "string list \<Rightarrow> error + string list" where
  "validate_verification_methods [] = Inr []"
| "validate_verification_methods (method # rest) =
     (if method \<notin> set [''deterministic'', ''tokenized'', ''screenshot'', ''headless'',
                         ''manual'', ''ml'']
      then Inl (ValidationError (''Invalid verification method: '' @ method))
      else (case validate_verification_methods rest of
              Inl e \<Rightarrow> Inl e
            | Inr v \<Rightarrow> Inr (method # v)))"

definition validate_thresholds :: "rule_data \<Rightarrow> error + rule_data" where
  "validate_thresholds data =
     (let pass_threshold = get_default (d_numbers data) ''pass_threshold'' (8 / 10);
          manual_review_threshold =
            get_default (d_numbers data) ''manual_review_threshold'' (6 / 10);
          fail_threshold = get_default (d_numbers data) ''fail_threshold'' (4 / 10)
      in if \<not> (fail_threshold \<le> manual_review_threshold
                \<and> manual_review_threshold \<le> pass_threshold)
         then Inl (ValidationError
           ''Thresholds must be ordered: fail_threshold <= manual_review_threshold <= pass_threshold'')
         else Inr data)"

text \<open>
  \<open>VerificationRuleViewSet.get_serializer_class\<close> picks the serializer by the action.
  Each serializer class is given by the fields of its \<open>Meta\<close> and by the methods it
  defines whose name starts with \<open>validate_\<close>, listed by the rest of the name.
\<close>

datatype serializer_class = VerificationRuleCreateSerializer | VerificationRuleSerializer

datatype validate_method = Validate_verification_methods | Validate_thresholds

definition get_serializer_class :: "string \<Rightarrow> serializer_class" where
  "get_serializer_class action =
     (if action = ''create'' then VerificationRuleCreateSerializer
      else VerificationRuleSerializer)"

fun meta_fields :: "serializer_class \<Rightarrow> string list" where
  "meta_fields VerificationRuleCreateSerializer =
     [''name'', ''platform'', ''engagement_type'', ''verification_methods'',
      ''timeout_seconds'', ''retry_attempts'', ''pass_threshold'',
      ''manual_review_threshold'', ''fail_threshold'', ''is_active'']"
| "meta_fields VerificationRuleSerializer =
     [''id'', ''name'', ''platform'', ''engagement_type'',
      ''verification_methods'', ''timeout_seconds'', ''retry_attempts'',
      ''pass_threshold'', ''manual_review_threshold'', ''fail_threshold'',
      ''is_active'', ''created_at'', ''updated_at'']"

fun validate_methods :: "serializer_class \<Rightarrow> (string \<times> validate_method) list" where
  "validate_methods VerificationRuleCreateSerializer =
     [(''verification_methods'', Validate_verification_methods),
      (''thresholds'', Validate_thresholds)]"
| "validate_methods VerificationRuleSerializer = []"

fun run_validate_method :: "validate_method \<Rightarrow> rule_data \<Rightarrow> error + rule_data" where
  "run_validate_method Validate_verification_methods data =
     (case validate_verification_methods (d_verification_methods data) of
        Inl e \<Rightarrow> Inl e
      | Inr v \<Rightarrow> Inr (data\<lparr>d_verification_methods := v\<rparr>))"
| "run_validate_method Validate_thresholds data = validate_thresholds data"

text \<open>
  The columns of \<open>VerificationRule\<close> (\<open>verification/models.py\<close>). A model serializer
  builds its fields from \<open>Meta.fields\<close> when they are first used, which is before any
  validation: a name that is neither declared on the serializer (neither class declares
  a field) nor a field of the model raises \<open>ImproperlyConfigured\<close>.
\<close>

definition model_field_names :: "string list" where
  "model_field_names =
     [''id'', ''name'', ''platform'', ''engagement_type'', ''verification_methods'',
      ''timeout_seconds'', ''retry_attempts'', ''min_confidence_score'',
      ''auto_approve_threshold'', ''auto_reject_threshold'', ''platform_settings'',
      ''is_active'', ''created_at'', ''updated_at'']"

fun build_fields :: "string list \<Rightarrow> error + string list" where
  "build_fields [] = Inr []"
| "build_fields (name # rest) =
     (if name \<notin> set model_field_names then Inl (ImproperlyConfigured name)
      else (case build_fields rest of
              Inl e \<Rightarrow> Inl e
            | Inr built \<Rightarrow> Inr (name # built)))"

text \<open>
  The field validation as the REST framework runs it on the fields built: for each
  field, in order, the method \<open>validate_<field name>\<close> when the class defines one; the
  first error ends the validation. The object-level hook is the method called
  \<open>validate\<close>, which neither class defines.
\<close>

fun run_field_validators ::
  "(string \<times> validate_method) list \<Rightarrow> string list \<Rightarrow> rule_data \<Rightarrow> error + rule_data" where
  "run_field_validators ms [] data = Inr data"
| "run_field_validators ms (field # rest) data =
     (case map_of ms field of
        None \<Rightarrow> run_field_validators ms rest data
      | Some vm \<Rightarrow>
          (case run_validate_method vm data of
             Inl e \<Rightarrow> Inl e
           | Inr data' \<Rightarrow> run_field_validators ms rest data'))"

definition run_validation :: "serializer_class \<Rightarrow> rule_data \<Rightarrow> error + rule_data" where
  "run_validation cls data =
     (case build_fields (meta_fields cls) of
        Inl e \<Rightarrow> Inl e
      | Inr built \<Rightarrow> run_field_validators (validate_methods cls) built data)"

text \<open>
  A create or update request of the view set on the row \<open>pk\<close> of the rule table
  (for a create, the id of the new row): an update of a missing row is answered with
  \<open>DoesNotExist\<close>; an error of the serializer is the answer and nothing is saved;
  valid data is saved.
\<close>

definition write_rule ::
  "(string \<rightharpoonup> rule_data) \<Rightarrow> string \<Rightarrow> string \<Rightarrow> rule_data
     \<Rightarrow> (error + rule_data) \<times> (string \<rightharpoonup> rule_data)" where
  "write_rule table action pk data =
     (if action \<noteq> ''create'' \<and> table pk = None then (Inl DoesNotExist, table)
      else
        (let cls = get_serializer_class action
         in case run_validation cls data of
              Inl e \<Rightarrow> (Inl e, table)
            | Inr validated \<Rightarrow> (Inr validated, table(pk \<mapsto> validated))))"

definition thresholds_ordered :: "rule_data \<Rightarrow> bool" where
  "thresholds_ordered data =
     (case (d_numbers data ''fail_threshold'', d_numbers data ''manual_review_threshold'',
            d_numbers data ''pass_threshold'') of
        (Some f, Some m, Some p) \<Rightarrow> f \<le> m \<and> m \<le> p
      | _ \<Rightarrow> False)"

section \<open>Vocabulary of the properties\<close>

text \<open>
  The entries of one user in creation order; \<open>replay b ts\<close> adds the amounts of the
  entries to \<open>b\<close> in order; an entry sums up when \<open>balance_after\<close> is
  \<open>balance_before\<close> plus the amount. The method names that have an adapter in the
  pipeline.
\<close>

definition user_entries :: "string \<Rightarrow> db \<Rightarrow> WalletTransaction list" where
  "user_entries uid s = filter (\<lambda>t. wt_user t = uid) (wallet_transactions s)"

definition replay :: "rat \<Rightarrow> WalletTransaction list \<Rightarrow> rat" where
  "replay b ts = foldl (\<lambda>acc t. acc + wt_amount t) b ts"

definition sums_up :: "WalletTransaction \<Rightarrow> bool" where
  "sums_up t = (wt_balance_after t = wt_balance_before t + wt_amount t)"

definition is_known_method :: "string \<Rightarrow> bool" where
  "is_known_method method =
     (method \<in> set [''deterministic'', ''tokenized'', ''screenshot'', ''headless'', ''ml''])"

section \<open>Concrete inputs\<close>

definition no_rows :: db where
  "no_rows = \<lparr> users = Map.empty, wallet_transactions = [],
               withdrawals = Map.empty, campaigns = Map.empty \<rparr>"

definition alice :: User where
  "alice = \<lparr> wallet_balance = 10, kyc_status = ''verified'' \<rparr>"

definition db_alice :: db where
  "db_alice = no_rows\<lparr>users := [''alice'' \<mapsto> alice]\<rparr>"

definition promoter :: User where
  "promoter = \<lparr> wallet_balance = 500, kyc_status = ''verified'' \<rparr>"

definition db_promoter :: db where
  "db_promoter = no_rows\<lparr>users := [''promoter'' \<mapsto> promoter]\<rparr>"

definition draft_campaign :: Campaign where
  "draft_campaign =
     \<lparr> c_id = ''c1'', c_promoter = ''promoter'', c_title = ''Launch'',
       c_status = ''draft'', c_total_budget = 300, c_reserved_funds = 0 \<rparr>"

definition earner :: User where
  "earner = \<lparr> wallet_balance = 0, kyc_status = ''pending'' \<rparr>"

definition db_earner :: db where
  "db_earner = no_rows\<lparr>users := [''earner'' \<mapsto> earner]\<rparr>"

definition saver :: User where
  "saver = \<lparr> wallet_balance = 100, kyc_status = ''verified'' \<rparr>"

definition db_saver :: db where
  "db_saver = no_rows\<lparr>users := [''saver'' \<mapsto> saver]\<rparr>"

definition pending_withdrawal :: Withdrawal where
  "pending_withdrawal =
     \<lparr> wd_id = ''w1'', wd_user = ''saver'', wd_amount = 50, wd_fee = 0,
       wd_net_amount = 50, wd_payment_method = ''bank_transfer'',
       wd_status = ''pending'', wd_payment_provider_id = [],
       wd_transaction_id = [], wd_admin_notes = [], wd_processed_by = None \<rparr>"

definition processing_withdrawal :: Withdrawal where
  "processing_withdrawal =
     pending_withdrawal\<lparr>wd_status := ''processing'', wd_processed_by := Some ''admin''\<rparr>"



text \<open>
  A job attempt on a TikTok like campaign whose proof data hold one note, and rules for
  that key with the default thresholds lowered to 0.5.
\<close>

definition approved_attempt :: JobAttempt where
  "approved_attempt =
     \<lparr> ja_id = ''a1'', ja_earner = ''earner'', ja_job_id = ''j1'', ja_campaign_id = ''c1'',
       ja_platform = ''tiktok'', ja_engagement_type = ''like'',
       ja_proof_data = [(''note'', JStr ''done'')] \<rparr>"

definition malformed_attempt :: JobAttempt where
  "malformed_attempt = approved_attempt\<lparr>ja_proof_data := [(''timestamp'', JStr ''yesterday'')]\<rparr>"

definition one_method_rule :: VerificationRule where
  "one_method_rule =
     \<lparr> vr_platform = ''tiktok'', vr_engagement_type = ''like'',
       verification_methods = [''deterministic''],
       min_confidence_score = FLit (5 / 10), auto_approve_threshold = FLit (5 / 10),
       auto_reject_threshold = FLit (3 / 10), is_active = True \<rparr>"

definition two_method_rule :: VerificationRule where
  "two_method_rule = one_method_rule\<lparr>verification_methods := [''deterministic'', ''tokenized'']\<rparr>"

definition manual_rule :: VerificationRule where
  "manual_rule = one_method_rule\<lparr>verification_methods := [''manual'']\<rparr>"

definition table_of :: "VerificationRule \<Rightarrow> (string \<times> string \<rightharpoonup> VerificationRule)" where
  "table_of rule = [(vr_platform rule, vr_engagement_type rule) \<mapsto> rule]"

text \<open>
  A world for the examples (on the inputs below no comparison of floats is reached), and
  any world turned into one that allows unsafe synchronous calls and in which creating a
  session works.
\<close>

definition quiet_world :: world where
  "quiet_world =
     \<lparr> async_unsafe_allowed = True, session_create_error = None,
       session_save_error = None, attempt_save_error = None,
       proof_older_than_hour = False, token_older_than_5_minutes = False,
       sha256_hexdigest = (\<lambda>token. []),
       post_verify_attempt = TransportError ''connection refused'',
       float_ge = (\<lambda>a b. False) \<rparr>"

definition allowing :: "world \<Rightarrow> world" where
  "allowing w = w\<lparr>async_unsafe_allowed := True, session_create_error := None\<rparr>"

definition ordered_data :: rule_data where
  "ordered_data =
     \<lparr> d_platform = ''instagram'', d_engagement_type = ''like'',
       d_verification_methods = [''deterministic''],
       d_numbers = [''fail_threshold'' \<mapsto> 4 / 10, ''manual_review_threshold'' \<mapsto> 6 / 10,
                    ''pass_threshold'' \<mapsto> 8 / 10] \<rparr>"

definition stored_data :: rule_data where
  "stored_data =
     \<lparr> d_platform = ''twitter'', d_engagement_type = ''follow'',
       d_verification_methods = [''deterministic''], d_numbers = Map.empty \<rparr>"

definition rule_table :: "string \<rightharpoonup> rule_data" where
  "rule_table = [''r1'' \<mapsto> stored_data]"

definition inverted_data :: rule_data where
  "inverted_data =
     \<lparr> d_platform = ''instagram'', d_engagement_type = ''like'',
       d_verification_methods = [''deterministic''],
       d_numbers = [''fail_threshold'' \<mapsto> 9 / 10, ''manual_review_threshold'' \<mapsto> 1 / 2,
                    ''pass_threshold'' \<mapsto> 1 / 10] \<rparr>"

section \<open>Properties of the ledger\<close>

lemma create_transaction_raises:
  "create_transaction s uid ty a r d m =
     (Inl (AttributeError (module_has_no_attribute ''django.db.models'' ''transaction'')), s)"
  by (simp add: create_transaction_def models_transaction_def)

text \<open>
  C7. The ledger create operation should fail with the insufficient-balance error
  exactly when the balance plus the amount is negative. A debit of 25 against a balance
  of 10 does not get that far: the first statement of \<open>create_transaction\<close> raises
  \<open>AttributeError\<close>, so the balance check is not reached and no \<open>ValueError\<close> is
  raised; a credit of 25, which the balance allows, raises the same error. In both cases
  the database is unchanged.
\<close>

theorem C7_balance_check_not_reached:
  "users db_alice ''alice'' = Some alice
   \<and> wallet_balance alice + (- 25) < 0
   \<and> create_transaction db_alice ''alice'' ''debit'' (- 25) ''withdrawal_w1''
         ''Withdrawal request w1'' []
       = (Inl (AttributeError (module_has_no_attribute ''django.db.models'' ''transaction'')),
          db_alice)
   \<and> \<not> wallet_balance alice + 25 < 0
   \<and> create_transaction db_alice ''alice'' ''credit'' 25 ''stripe_payment_pi_1''
         ''Payment received'' []
       = (Inl (AttributeError (module_has_no_attribute ''django.db.models'' ''transaction'')),
          db_alice)"
  by (simp add: create_transaction_raises db_alice_def no_rows_def alice_def)

text \<open>
  C1. Every ledger entry should have \<open>balance_after = balance_before + amount\<close>, and
  replaying the amounts should give the cached balance, also on the campaign fund path.
  A promoter with balance 500 funds a draft campaign with budget 300: the request
  succeeds and writes a \<open>hold\<close> entry with \<open>balance_before\<close> 500, amount 300 and
  \<open>balance_after\<close> 200, so the entry does not sum up; replaying the amounts from 500
  gives 800 while the cached balance is 200.
\<close>

theorem C1_fund_entry_breaks_sum:
  "fst (fund db_promoter ''promoter'' promoter draft_campaign) = (200, ''Campaign funded successfully'')
   \<and> map wt_balance_before (wallet_transactions (snd (fund db_promoter ''promoter'' promoter draft_campaign))) = [500]
   \<and> map wt_amount (wallet_transactions (snd (fund db_promoter ''promoter'' promoter draft_campaign))) = [300]
   \<and> map wt_balance_after (wallet_transactions (snd (fund db_promoter ''promoter'' promoter draft_campaign))) = [200]
   \<and> map sums_up (wallet_transactions (snd (fund db_promoter ''promoter'' promoter draft_campaign))) = [False]
   \<and> replay 500 (user_entries ''promoter'' (snd (fund db_promoter ''promoter'' promoter draft_campaign))) = 800
   \<and> map_option wallet_balance (users (snd (fund db_promoter ''promoter'' promoter draft_campaign)) ''promoter'') = Some 200"
  by (simp add: fund_def db_promoter_def no_rows_def promoter_def draft_campaign_def Let_def
        sums_up_def replay_def user_entries_def)

section \<open>The credit path\<close>

lemma process_approved_job_unchanged: "process_approved_job s ja = s"
  by (simp add: process_approved_job_def JobAttempt_reward_amount_def)

text \<open>
  C2. Invoking the credit operation twice for one job attempt should leave exactly one
  ledger entry. For an earner with balance 0: \<open>_process_approved_job\<close> raises
  \<open>AttributeError\<close> on \<open>job_attempt.reward_amount\<close> while it evaluates the arguments
  of \<open>create_transaction\<close>, and the error is logged; after the first call and after the
  second the ledger is empty and the balance is 0. A direct call of
  \<open>create_transaction\<close> with the reference and an amount of 5 raises as well.
\<close>

theorem C2_credit_path_writes_no_entry:
  "wallet_transactions (process_approved_job db_earner approved_attempt) = []
   \<and> wallet_transactions
        (process_approved_job (process_approved_job db_earner approved_attempt) approved_attempt)
       = []
   \<and> map_option wallet_balance
        (users (process_approved_job (process_approved_job db_earner approved_attempt)
                  approved_attempt) ''earner'') = Some 0
   \<and> create_transaction db_earner ''earner'' ''credit'' 5 ''job_completion_j1''
         ''Payment for completing job j1'' []
       = (Inl (AttributeError (module_has_no_attribute ''django.db.models'' ''transaction'')),
          db_earner)"
  by (simp add: process_approved_job_unchanged create_transaction_raises
        db_earner_def no_rows_def earner_def)

section \<open>Properties of withdrawals\<close>

lemma Withdrawal_process_never_debits:
  "isl (fst (Withdrawal_process thr s w admin)) \<and> snd (Withdrawal_process thr s w admin) = s"
  by (simp add: Withdrawal_process_def models_transaction_def split: option.splits)


lemma Withdrawal_complete_result:
  "Withdrawal_complete s w p t =
     (if wd_status w = ''processing''
      then (Inr (w\<lparr>wd_status := ''completed'', wd_payment_provider_id := or_empty p,
                    wd_transaction_id := or_empty t\<rparr>),
            s\<lparr>withdrawals := (withdrawals s)(wd_id w \<mapsto>
                 w\<lparr>wd_status := ''completed'', wd_payment_provider_id := or_empty p,
                    wd_transaction_id := or_empty t\<rparr>)\<rparr>)
      else (Inl (ValueError ''Withdrawal must be processing to complete''), s))"
  by (simp add: Withdrawal_complete_def Let_def)

lemma Withdrawal_process_completed:
  "wd_status w = ''completed'' \<Longrightarrow>
   isl (fst (Withdrawal_process thr s w admin)) \<and> snd (Withdrawal_process thr s w admin) = s"
  by (simp add: Withdrawal_process_def can_process_def split: option.splits)

lemma Withdrawal_fail_completed:
  "wd_status w = ''completed'' \<Longrightarrow>
   Withdrawal_fail s w reason
     = (Inl (ValueError ''Withdrawal must be pending or processing to fail''), s)"
  by (simp add: Withdrawal_fail_def)

text \<open>
  C8, as amended. \<open>complete\<close> succeeds exactly when the withdrawal is \<open>processing\<close>
  and the object it returns is \<open>completed\<close>. That state is terminal: on a completed
  withdrawal \<open>complete\<close>, \<open>fail\<close> and \<open>process\<close> all raise and leave the database
  unchanged. In particular a repeated \<open>complete\<close> call with the same payout id raises
  \<open>ValueError\<close>; it is rejected, not accepted as a no-op.
\<close>

theorem C8_complete_only_from_processing:
  "((\<exists>w'. fst (Withdrawal_complete s w p t) = Inr w') = (wd_status w = ''processing''))
   \<and> (\<forall>w' s'. Withdrawal_complete s w p t = (Inr w', s') \<longrightarrow>
         wd_status w' = ''completed''
         \<and> Withdrawal_complete s' w' p t
             = (Inl (ValueError ''Withdrawal must be processing to complete''), s'))
   \<and> (wd_status w = ''completed'' \<longrightarrow>
         Withdrawal_complete s w p t
           = (Inl (ValueError ''Withdrawal must be processing to complete''), s)
         \<and> Withdrawal_fail s w reason
           = (Inl (ValueError ''Withdrawal must be pending or processing to fail''), s)
         \<and> isl (fst (Withdrawal_process thr s w admin))
         \<and> snd (Withdrawal_process thr s w admin) = s)"
proof (intro conjI allI impI)
  show "(\<exists>w'. fst (Withdrawal_complete s w p t) = Inr w') = (wd_status w = ''processing'')"
    by (simp add: Withdrawal_complete_result)
next
  fix w' s'
  assume a: "Withdrawal_complete s w p t = (Inr w', s')"
  then have st: "wd_status w = ''processing''"
    by (simp add: Withdrawal_complete_result split: if_splits)
  with a show "wd_status w' = ''completed''"
    by (auto simp add: Withdrawal_complete_result)
  then show "Withdrawal_complete s' w' p t
      = (Inl (ValueError ''Withdrawal must be processing to complete''), s')"
    by (simp add: Withdrawal_complete_result)
next
  assume c: "wd_status w = ''completed''"
  then show "Withdrawal_complete s w p t
      = (Inl (ValueError ''Withdrawal must be processing to complete''), s)"
    by (simp add: Withdrawal_complete_result)
  show "Withdrawal_fail s w reason
      = (Inl (ValueError ''Withdrawal must be pending or processing to fail''), s)"
    using c by (rule Withdrawal_fail_completed)
  show "isl (fst (Withdrawal_process thr s w admin))"
    using Withdrawal_process_completed [OF c] by simp
  show "snd (Withdrawal_process thr s w admin) = s"
    using Withdrawal_process_completed [OF c] by simp
qed

text \<open>A processing withdrawal is completed; a completed one cannot be failed.\<close>

theorem C8_complete_only_from_processing_witness:
  "wd_status processing_withdrawal = ''processing''
   \<and> (\<exists>w'. fst (Withdrawal_complete db_saver processing_withdrawal (Some ''po_1'') None) = Inr w')
   \<and> wd_status (processing_withdrawal\<lparr>wd_status := ''completed''\<rparr>) = ''completed''
   \<and> Withdrawal_fail db_saver (processing_withdrawal\<lparr>wd_status := ''completed''\<rparr>) ''late''
       = (Inl (ValueError ''Withdrawal must be pending or processing to fail''), db_saver)"
proof -
  have h: "wd_status processing_withdrawal = ''processing''"
    by (simp add: processing_withdrawal_def)
  have c: "wd_status (processing_withdrawal\<lparr>wd_status := ''completed''\<rparr>) = ''completed''"
    by simp
  note from_processing =
    C8_complete_only_from_processing [where s = db_saver and w = processing_withdrawal
      and p = "Some ''po_1''" and t = None and reason = "''late''" and thr = 0
      and admin = "''admin''", THEN conjunct1]
  note from_completed =
    C8_complete_only_from_processing [where s = db_saver
      and w = "processing_withdrawal\<lparr>wd_status := ''completed''\<rparr>"
      and p = "Some ''po_1''" and t = None and reason = "''late''" and thr = 0
      and admin = "''admin''", THEN conjunct2, THEN conjunct2, THEN mp, OF c]
  have e: "\<exists>w'. fst (Withdrawal_complete db_saver processing_withdrawal (Some ''po_1'') None) = Inr w'"
    using from_processing h by blast
  have f: "Withdrawal_fail db_saver (processing_withdrawal\<lparr>wd_status := ''completed''\<rparr>) ''late''
       = (Inl (ValueError ''Withdrawal must be pending or processing to fail''), db_saver)"
    using from_completed by blast
  show ?thesis using h e c f by blast
qed

text \<open>
  C8 as stated fails: completing a processing withdrawal and then calling \<open>complete\<close>
  again with the same payout id raises.
\<close>

theorem C8_repeated_complete_counterexample:
  "map_sum id wd_status
     (fst (Withdrawal_complete db_saver processing_withdrawal (Some ''po_1'') (Some ''po_1'')))
     = Inr ''completed''
   \<and> Withdrawal_complete
       (snd (Withdrawal_complete db_saver processing_withdrawal (Some ''po_1'') (Some ''po_1'')))
       (projr (fst (Withdrawal_complete db_saver processing_withdrawal (Some ''po_1'') (Some ''po_1''))))
       (Some ''po_1'') (Some ''po_1'')
     = (Inl (ValueError ''Withdrawal must be processing to complete''),
        snd (Withdrawal_complete db_saver processing_withdrawal (Some ''po_1'') (Some ''po_1'')))"
  by (simp add: Withdrawal_complete_result processing_withdrawal_def pending_withdrawal_def)

section \<open>Properties of the verification pipeline\<close>

lemma call_method_None: "(call_method w ja m = None) = (\<not> is_known_method m)"
  by (simp add: call_method_def is_known_method_def)

lemma run_methods_executed:
  "executed (run_methods w ja rule ms st) = executed st @ filter is_known_method ms"
proof (induction ms arbitrary: st)
  case Nil
  then show ?case by simp
next
  case (Cons m ms)
  show ?case
  proof (cases "call_method w ja m")
    case None
    then have "\<not> is_known_method m" using call_method_None [of w ja m] by simp
    then show ?thesis using None Cons.IH [of st] by simp
  next
    case (Some out)
    then have k: "is_known_method m" using call_method_None [of w ja m] by simp
    show ?thesis
    proof (cases out)
      case (Raises e)
      then show ?thesis
        using Some k Cons.IH [of "st\<lparr>executed := executed st @ [m]\<rparr>"] by simp
    next
      case (Returns r)
      then show ?thesis
        using Some k Cons.IH [of "record_result m r st"]
        by (simp add: Let_def rule_pass_threshold_def record_result_def)
    qed
  qed
qed

lemma run_verification_pipeline_raises:
  "run_verification_pipeline w ja rule
     = Inl (AttributeError (object_has_no_attribute ''VerificationRule'' ''pass_threshold''))"
  by (simp add: run_verification_pipeline_def final_status_def rule_pass_threshold_def Let_def)

lemma deterministic_check_note:
  "deterministic_check w approved_attempt =
     Returns \<lparr> r_method = ''deterministic'', r_confidence = FMax (FLit 0) (FLit (8 / 10)),
               r_fraud_indicators = [],
               r_evidence = [(''proof_data_present'', JBool True),
                             (''timestamp_valid'', JBool False),
                             (''data_structure_valid'', JBool True)] \<rparr>"
  by (simp add: deterministic_check_def check_timestamp_def check_url_def check_post_id_def
        approved_attempt_def Let_def)

lemma tokenized_verification_note:
  "tokenized_verification w approved_attempt =
     Returns \<lparr> r_method = ''tokenized'',
               r_confidence = FMax (FLit 0) (FSub (FLit (7 / 10)) (FLit (5 / 10))),
               r_fraud_indicators = [''missing_verification_token''],
               r_evidence = [(''token_present'', JBool False)] \<rparr>"
  by (simp add: tokenized_verification_def approved_attempt_def Let_def)

lemma deterministic_check_malformed:
  "deterministic_check w malformed_attempt
     = Raises (TypeError ''unsupported operand type(s) for -: float and str'')"
  by (simp add: deterministic_check_def check_timestamp_def malformed_attempt_def
        approved_attempt_def Let_def)

lemma verify_job_attempt_found:
  "rules (ja_platform ja, ja_engagement_type ja) = Some rule \<Longrightarrow> is_active rule \<Longrightarrow>
   verify_job_attempt (allowing w) rules ja
     = (Inr (FailureResult ''failed''
               (object_has_no_attribute ''VerificationRule'' ''pass_threshold'') (FLit 0)),
        Some \<lparr> vs_job_attempt = ja_id ja, vs_verification_rule = rule,
               vs_status = ''pending'' \<rparr>)"
  by (simp add: verify_job_attempt_def verify_body_def get_verification_rule_def allowing_def
        run_verification_pipeline_raises Let_def)


text \<open>
  C5. The loop should stop as soon as the running mean reaches the rule's pass
  threshold. The test of the \<open>break\<close> raises on \<open>rule.pass_threshold\<close> and the
  exception is logged, so the loop never stops early: for every rule and attempt the
  adapter of every known method of the list is called, in order. With the methods
  \<open>deterministic\<close> and \<open>tokenized\<close> and all thresholds of the rule at most 0.5, the
  first method returns \<open>max(0.0, 0.8)\<close> and the second is called all the same.
\<close>

theorem C5_loop_never_stops_early:
  "executed (pipeline_loop w ja rule) = filter is_known_method (verification_methods rule)
   \<and> executed (pipeline_loop w approved_attempt two_method_rule)
       = [''deterministic'', ''tokenized'']
   \<and> map r_confidence (results (pipeline_loop w approved_attempt two_method_rule))
       = [FMax (FLit 0) (FLit (8 / 10)),
          FMax (FLit 0) (FSub (FLit (7 / 10)) (FLit (5 / 10)))]
   \<and> min_confidence_score two_method_rule = FLit (5 / 10)
   \<and> auto_approve_threshold two_method_rule = FLit (5 / 10)
   \<and> auto_reject_threshold two_method_rule = FLit (3 / 10)"
proof (intro conjI)
  have all: "executed (pipeline_loop w ja' rule')
      = filter is_known_method (verification_methods rule')" for ja' rule'
    unfolding pipeline_loop_def run_methods_executed by (simp add: initial_state_def)
  show "executed (pipeline_loop w ja rule) = filter is_known_method (verification_methods rule)"
    by (rule all)
  show "executed (pipeline_loop w approved_attempt two_method_rule)
       = [''deterministic'', ''tokenized'']"
    unfolding all by (simp add: two_method_rule_def is_known_method_def)
  show "map r_confidence (results (pipeline_loop w approved_attempt two_method_rule))
       = [FMax (FLit 0) (FLit (8 / 10)),
          FMax (FLit 0) (FSub (FLit (7 / 10)) (FLit (5 / 10)))]"
    by (simp add: pipeline_loop_def two_method_rule_def call_method_def
          deterministic_check_note tokenized_verification_note rule_pass_threshold_def
          record_result_def initial_state_def Let_def)
qed (simp_all add: two_method_rule_def one_method_rule_def)

text \<open>
  C6. When every configured method fails to produce a result the decision should be
  \<open>manual_review\<close>. The rule has the one method \<open>deterministic\<close> and the proof data
  hold a timestamp that is a string: the adapter raises \<open>TypeError\<close>, which the loop
  logs, and the list of results is empty. The overall confidence stays 0.0 and
  \<open>rule.pass_threshold\<close> raises: the pipeline returns no decision,
  \<open>verify_job_attempt\<close> answers \<open>failed\<close> and the session row stays \<open>pending\<close>.
\<close>

theorem C6_all_failed_run_ends_failed:
  "executed (pipeline_loop w malformed_attempt one_method_rule) = [''deterministic'']
   \<and> results (pipeline_loop w malformed_attempt one_method_rule) = []
   \<and> final_confidence (pipeline_loop w malformed_attempt one_method_rule) = FLit 0
   \<and> run_verification_pipeline w malformed_attempt one_method_rule
       = Inl (AttributeError (object_has_no_attribute ''VerificationRule'' ''pass_threshold''))
   \<and> verify_job_attempt (allowing w) (table_of one_method_rule) malformed_attempt
       = (Inr (FailureResult ''failed''
                 (object_has_no_attribute ''VerificationRule'' ''pass_threshold'') (FLit 0)),
          Some \<lparr> vs_job_attempt = ''a1'', vs_verification_rule = one_method_rule,
                 vs_status = ''pending'' \<rparr>)"
proof (intro conjI)
  have loop: "pipeline_loop w malformed_attempt one_method_rule
      = initial_state\<lparr>executed := [''deterministic'']\<rparr>"
    by (simp add: pipeline_loop_def one_method_rule_def call_method_def
          deterministic_check_malformed initial_state_def)
  show "executed (pipeline_loop w malformed_attempt one_method_rule) = [''deterministic'']"
    unfolding loop by simp
  show "results (pipeline_loop w malformed_attempt one_method_rule) = []"
    unfolding loop by (simp add: initial_state_def)
  show "final_confidence (pipeline_loop w malformed_attempt one_method_rule) = FLit 0"
    unfolding loop by (simp add: final_confidence_def initial_state_def)
  show "run_verification_pipeline w malformed_attempt one_method_rule
       = Inl (AttributeError (object_has_no_attribute ''VerificationRule'' ''pass_threshold''))"
    by (rule run_verification_pipeline_raises)
  have key: "table_of one_method_rule (ja_platform malformed_attempt,
               ja_engagement_type malformed_attempt) = Some one_method_rule"
    by (simp add: table_of_def one_method_rule_def malformed_attempt_def approved_attempt_def)
  have act: "is_active one_method_rule" by (simp add: one_method_rule_def)
  show "verify_job_attempt (allowing w) (table_of one_method_rule) malformed_attempt
       = (Inr (FailureResult ''failed''
                 (object_has_no_attribute ''VerificationRule'' ''pass_threshold'') (FLit 0)),
          Some \<lparr> vs_job_attempt = ''a1'', vs_verification_rule = one_method_rule,
                 vs_status = ''pending'' \<rparr>)"
    using verify_job_attempt_found [where rules = "table_of one_method_rule"
        and ja = malformed_attempt and rule = one_method_rule and w = w] key act
    by (simp add: malformed_attempt_def approved_attempt_def)
qed

section \<open>Properties of the orchestrator\<close>

lemma verify_job_attempt_fst:
  "fst (verify_job_attempt w rules ja) =
     (case fst (verify_body w rules ja) of
        Inl e \<Rightarrow> Inr (FailureResult ''failed'' (str_of_error e) (FLit 0))
      | Inr r \<Rightarrow> Inr r)"
  by (simp add: verify_job_attempt_def split: prod.splits sum.splits)

lemma verify_body_no_rule:
  "get_verification_rule w rules (ja_platform ja) (ja_engagement_type ja) = Inr None \<Longrightarrow>
   fst (verify_body w rules ja)
     = Inr (FailureResult ''failed'' ''No verification rule found'' (FLit 0))"
  by (simp add: verify_body_def)

lemma verify_body_lookup_raises:
  "get_verification_rule w rules (ja_platform ja) (ja_engagement_type ja) = Inl e \<Longrightarrow>
   fst (verify_body w rules ja) = Inl e"
  by (simp add: verify_body_def)

lemma verify_body_create_raises:
  "get_verification_rule w rules (ja_platform ja) (ja_engagement_type ja) = Inr (Some rule) \<Longrightarrow>
   session_create_error w = Some msg \<Longrightarrow>
   fst (verify_body w rules ja) = Inl (DatabaseError msg)"
  by (simp add: verify_body_def)

lemma verify_body_pipeline_raises:
  "get_verification_rule w rules (ja_platform ja) (ja_engagement_type ja) = Inr (Some rule) \<Longrightarrow>
   session_create_error w = None \<Longrightarrow>
   fst (verify_body w rules ja)
     = Inl (AttributeError (object_has_no_attribute ''VerificationRule'' ''pass_threshold''))"
  by (simp add: verify_body_def run_verification_pipeline_raises Let_def)

text \<open>
  C10. \<open>verify_job_attempt\<close> always returns a result dictionary and never raises.
  When no active rule exists for the attempt's platform and engagement type it returns
  status \<open>failed\<close> with confidence 0.0, and so it does whenever its body raises: when
  the rule lookup raises (a synchronous database call in the coroutine), when creating
  the session raises, and when the pipeline raises. (An adapter that raises inside the
  loop of the pipeline is caught there and does not reach this handler.)
\<close>

theorem C10_verify_job_attempt_total:
  "(\<exists>r. fst (verify_job_attempt w rules ja) = Inr r)
   \<and> (get_verification_rule w rules (ja_platform ja) (ja_engagement_type ja) = Inr None \<longrightarrow>
        fst (verify_job_attempt w rules ja)
          = Inr (FailureResult ''failed'' ''No verification rule found'' (FLit 0)))
   \<and> (\<forall>e. fst (verify_body w rules ja) = Inl e \<longrightarrow>
        fst (verify_job_attempt w rules ja)
          = Inr (FailureResult ''failed'' (str_of_error e) (FLit 0)))
   \<and> (\<not> async_unsafe_allowed w \<longrightarrow>
        fst (verify_job_attempt w rules ja)
          = Inr (FailureResult ''failed'' (str_of_error SynchronousOnlyOperation) (FLit 0)))
   \<and> (\<forall>rule msg.
        get_verification_rule w rules (ja_platform ja) (ja_engagement_type ja) = Inr (Some rule)
        \<and> session_create_error w = Some msg \<longrightarrow>
        fst (verify_job_attempt w rules ja)
          = Inr (FailureResult ''failed'' (str_of_error (DatabaseError msg)) (FLit 0)))
   \<and> (\<forall>rule.
        get_verification_rule w rules (ja_platform ja) (ja_engagement_type ja) = Inr (Some rule)
        \<and> session_create_error w = None \<longrightarrow>
        fst (verify_job_attempt w rules ja)
          = Inr (FailureResult ''failed''
                   (str_of_error (AttributeError
                      (object_has_no_attribute ''VerificationRule'' ''pass_threshold'')))
                   (FLit 0)))"
proof (intro conjI allI impI)
  show "\<exists>r. fst (verify_job_attempt w rules ja) = Inr r"
    by (cases "fst (verify_body w rules ja)") (simp_all add: verify_job_attempt_fst)
next
  assume "get_verification_rule w rules (ja_platform ja) (ja_engagement_type ja) = Inr None"
  then show "fst (verify_job_attempt w rules ja)
      = Inr (FailureResult ''failed'' ''No verification rule found'' (FLit 0))"
    by (simp add: verify_job_attempt_fst verify_body_no_rule)
next
  fix e assume "fst (verify_body w rules ja) = Inl e"
  then show "fst (verify_job_attempt w rules ja)
      = Inr (FailureResult ''failed'' (str_of_error e) (FLit 0))"
    by (simp add: verify_job_attempt_fst)
next
  assume "\<not> async_unsafe_allowed w"
  then have "get_verification_rule w rules (ja_platform ja) (ja_engagement_type ja)
      = Inl SynchronousOnlyOperation"
    by (simp add: get_verification_rule_def)
  then show "fst (verify_job_attempt w rules ja)
      = Inr (FailureResult ''failed'' (str_of_error SynchronousOnlyOperation) (FLit 0))"
    by (simp add: verify_job_attempt_fst verify_body_lookup_raises)
next
  fix rule msg
  assume "get_verification_rule w rules (ja_platform ja) (ja_engagement_type ja) = Inr (Some rule)
        \<and> session_create_error w = Some msg"
  then have "fst (verify_body w rules ja) = Inl (DatabaseError msg)"
    using verify_body_create_raises by blast
  then show "fst (verify_job_attempt w rules ja)
      = Inr (FailureResult ''failed'' (str_of_error (DatabaseError msg)) (FLit 0))"
    by (simp add: verify_job_attempt_fst)
next
  fix rule
  assume "get_verification_rule w rules (ja_platform ja) (ja_engagement_type ja) = Inr (Some rule)
        \<and> session_create_error w = None"
  then have "fst (verify_body w rules ja)
      = Inl (AttributeError (object_has_no_attribute ''VerificationRule'' ''pass_threshold''))"
    using verify_body_pipeline_raises by blast
  then show "fst (verify_job_attempt w rules ja)
      = Inr (FailureResult ''failed''
                   (str_of_error (AttributeError
                      (object_has_no_attribute ''VerificationRule'' ''pass_threshold'')))
                   (FLit 0))"
    by (simp add: verify_job_attempt_fst)
qed

lemma no_rule_for_attempt:
  "get_verification_rule quiet_world Map.empty (ja_platform approved_attempt)
     (ja_engagement_type approved_attempt) = Inr None"
  by (simp add: get_verification_rule_def quiet_world_def)

lemma rule_for_attempt:
  "async_unsafe_allowed w \<Longrightarrow>
   get_verification_rule w (table_of one_method_rule) (ja_platform approved_attempt)
     (ja_engagement_type approved_attempt) = Inr (Some one_method_rule)"
  by (simp add: get_verification_rule_def table_of_def one_method_rule_def approved_attempt_def)

text \<open>
  No rule in the table; a process that does not allow synchronous calls; a session that
  cannot be created; and a rule in the table with the session created, where the
  pipeline raises.
\<close>

theorem C10_verify_job_attempt_total_witness:
  "get_verification_rule quiet_world Map.empty (ja_platform approved_attempt)
     (ja_engagement_type approved_attempt) = Inr None
   \<and> result_status (projr (fst (verify_job_attempt quiet_world Map.empty approved_attempt)))
       = ''failed''
   \<and> result_confidence (projr (fst (verify_job_attempt quiet_world Map.empty approved_attempt)))
       = FLit 0
   \<and> \<not> async_unsafe_allowed (quiet_world\<lparr>async_unsafe_allowed := False\<rparr>)
   \<and> fst (verify_job_attempt (quiet_world\<lparr>async_unsafe_allowed := False\<rparr>)
            (table_of one_method_rule) approved_attempt)
       = Inr (FailureResult ''failed''
                ''You cannot call this from an async context - use a thread or sync_to_async.''
                (FLit 0))
   \<and> session_create_error (quiet_world\<lparr>session_create_error := Some ''duplicate key''\<rparr>)
       = Some ''duplicate key''
   \<and> fst (verify_job_attempt (quiet_world\<lparr>session_create_error := Some ''duplicate key''\<rparr>)
            (table_of one_method_rule) approved_attempt)
       = Inr (FailureResult ''failed'' ''duplicate key'' (FLit 0))
   \<and> fst (verify_body quiet_world (table_of one_method_rule) approved_attempt)
       = Inl (AttributeError (object_has_no_attribute ''VerificationRule'' ''pass_threshold''))
   \<and> fst (verify_job_attempt quiet_world (table_of one_method_rule) approved_attempt)
       = Inr (FailureResult ''failed''
                (object_has_no_attribute ''VerificationRule'' ''pass_threshold'') (FLit 0))"
proof -
  have a: "fst (verify_job_attempt quiet_world Map.empty approved_attempt)
      = Inr (FailureResult ''failed'' ''No verification rule found'' (FLit 0))"
    using C10_verify_job_attempt_total [where w = quiet_world and rules = Map.empty
        and ja = approved_attempt, THEN conjunct2, THEN conjunct1] no_rule_for_attempt
    by blast
  have off: "\<not> async_unsafe_allowed (quiet_world\<lparr>async_unsafe_allowed := False\<rparr>)" by simp
  have b: "fst (verify_job_attempt (quiet_world\<lparr>async_unsafe_allowed := False\<rparr>)
            (table_of one_method_rule) approved_attempt)
      = Inr (FailureResult ''failed'' (str_of_error SynchronousOnlyOperation) (FLit 0))"
    using C10_verify_job_attempt_total [where w = "quiet_world\<lparr>async_unsafe_allowed := False\<rparr>"
        and rules = "table_of one_method_rule" and ja = approved_attempt,
        THEN conjunct2, THEN conjunct2, THEN conjunct2, THEN conjunct1] off
    by blast
  have on: "async_unsafe_allowed quiet_world" by (simp add: quiet_world_def)
  have on': "async_unsafe_allowed (quiet_world\<lparr>session_create_error := Some ''duplicate key''\<rparr>)"
    by (simp add: quiet_world_def)
  have dup: "session_create_error (quiet_world\<lparr>session_create_error := Some ''duplicate key''\<rparr>)
      = Some ''duplicate key''" by simp
  have c: "fst (verify_job_attempt (quiet_world\<lparr>session_create_error := Some ''duplicate key''\<rparr>)
            (table_of one_method_rule) approved_attempt)
      = Inr (FailureResult ''failed'' (str_of_error (DatabaseError ''duplicate key'')) (FLit 0))"
    using C10_verify_job_attempt_total
        [where w = "quiet_world\<lparr>session_create_error := Some ''duplicate key''\<rparr>"
        and rules = "table_of one_method_rule" and ja = approved_attempt,
        THEN conjunct2, THEN conjunct2, THEN conjunct2, THEN conjunct2, THEN conjunct1]
      rule_for_attempt [OF on'] dup
    by blast
  have none: "session_create_error quiet_world = None" by (simp add: quiet_world_def)
  have body: "fst (verify_body quiet_world (table_of one_method_rule) approved_attempt)
      = Inl (AttributeError (object_has_no_attribute ''VerificationRule'' ''pass_threshold''))"
    using verify_body_pipeline_raises [OF rule_for_attempt [OF on] none] .
  have d: "fst (verify_job_attempt quiet_world (table_of one_method_rule) approved_attempt)
      = Inr (FailureResult ''failed''
               (str_of_error (AttributeError
                  (object_has_no_attribute ''VerificationRule'' ''pass_threshold'')))
               (FLit 0))"
    using C10_verify_job_attempt_total [where w = quiet_world
        and rules = "table_of one_method_rule" and ja = approved_attempt,
        THEN conjunct2, THEN conjunct2, THEN conjunct1] body
    by blast
  have d': "fst (verify_job_attempt quiet_world (table_of one_method_rule) approved_attempt)
      = Inr (FailureResult ''failed''
               (str_of_error (AttributeError
                  (object_has_no_attribute ''VerificationRule'' ''pass_threshold'')))
               (FLit 0))"
    using C10_verify_job_attempt_total [where w = quiet_world
        and rules = "table_of one_method_rule" and ja = approved_attempt,
        THEN conjunct2, THEN conjunct2, THEN conjunct2, THEN conjunct2, THEN conjunct2]
      rule_for_attempt [OF on] none
    by blast
  show ?thesis using a b c d d' off dup body no_rule_for_attempt by simp
qed

text \<open>
  With the rule model as it is, no run gets past the pipeline: whatever the world, the
  rule table and the attempt, the result is a failure dictionary with status \<open>failed\<close>
  and confidence 0.0.
\<close>

lemma verify_job_attempt_always_failed:
  "\<exists>reason. fst (verify_job_attempt w rules ja)
      = Inr (FailureResult ''failed'' reason (FLit 0))"
proof (cases "get_verification_rule w rules (ja_platform ja) (ja_engagement_type ja)")
  case (Inl e)
  then show ?thesis by (simp add: verify_job_attempt_fst verify_body_lookup_raises)
next
  case (Inr found)
  show ?thesis
  proof (cases found)
    case None
    then show ?thesis using Inr by (simp add: verify_job_attempt_fst verify_body_no_rule)
  next
    case (Some rule)
    show ?thesis
    proof (cases "session_create_error w")
      case None
      then show ?thesis
        using Inr Some verify_body_pipeline_raises [of w rules ja rule]
        by (simp add: verify_job_attempt_fst)
    next
      case (Some msg)
      then show ?thesis
        using Inr \<open>found = Some rule\<close> verify_body_create_raises [of w rules ja rule msg]
        by (simp add: verify_job_attempt_fst)
    qed
  qed
qed

section \<open>Properties of the rule serializers\<close>

lemma validate_thresholds_rejects:
  "validate_thresholds data =
     (if get_default (d_numbers data) ''fail_threshold'' (4 / 10)
           \<le> get_default (d_numbers data) ''manual_review_threshold'' (6 / 10)
         \<and> get_default (d_numbers data) ''manual_review_threshold'' (6 / 10)
           \<le> get_default (d_numbers data) ''pass_threshold'' (8 / 10)
      then Inr data
      else Inl (ValidationError
        ''Thresholds must be ordered: fail_threshold <= manual_review_threshold <= pass_threshold''))"
  by (simp add: validate_thresholds_def Let_def)

lemma inverted_numbers:
  "d_numbers inverted_data ''fail_threshold'' = Some (9 / 10)"
  "d_numbers inverted_data ''manual_review_threshold'' = Some (1 / 2)"
  "d_numbers inverted_data ''pass_threshold'' = Some (1 / 10)"
  by (simp_all add: inverted_data_def)

lemma run_validation_raises:
  "run_validation cls data = Inl (ImproperlyConfigured ''pass_threshold'')"
  by (cases cls) (simp_all add: run_validation_def model_field_names_def)

text \<open>
  C9. A rule whose thresholds violate \<open>fail <= manual_review <= pass\<close> should be
  rejected with a validation error when it is written. The data with fail 0.9, manual
  review 0.5 and pass 0.1 would be rejected by \<open>validate_thresholds\<close>, but that method
  is not reached: both serializers name \<open>pass_threshold\<close> in \<open>Meta.fields\<close>, which
  is not a field of the model, so building the fields raises \<open>ImproperlyConfigured\<close>.
  A create and an update of this data are answered with that error, and so is a create
  whose thresholds are in order; the table is unchanged.
\<close>

theorem C9_writes_fail_before_validation:
  "\<not> thresholds_ordered inverted_data
   \<and> validate_thresholds inverted_data = Inl (ValidationError
        ''Thresholds must be ordered: fail_threshold <= manual_review_threshold <= pass_threshold'')
   \<and> write_rule rule_table ''create'' ''r2'' inverted_data
        = (Inl (ImproperlyConfigured ''pass_threshold''), rule_table)
   \<and> write_rule rule_table ''update'' ''r1'' inverted_data
        = (Inl (ImproperlyConfigured ''pass_threshold''), rule_table)
   \<and> thresholds_ordered ordered_data
   \<and> write_rule rule_table ''create'' ''r2'' ordered_data
        = (Inl (ImproperlyConfigured ''pass_threshold''), rule_table)"
proof (intro conjI)
  show "\<not> thresholds_ordered inverted_data"
    by (simp add: thresholds_ordered_def inverted_numbers)
  show "validate_thresholds inverted_data = Inl (ValidationError
        ''Thresholds must be ordered: fail_threshold <= manual_review_threshold <= pass_threshold'')"
    by (simp add: validate_thresholds_rejects get_default_def inverted_numbers)
  show "write_rule rule_table ''create'' ''r2'' inverted_data
        = (Inl (ImproperlyConfigured ''pass_threshold''), rule_table)"
    by (simp add: write_rule_def run_validation_raises Let_def)
  show "write_rule rule_table ''update'' ''r1'' inverted_data
        = (Inl (ImproperlyConfigured ''pass_threshold''), rule_table)"
    by (simp add: write_rule_def run_validation_raises rule_table_def Let_def)
  show "thresholds_ordered ordered_data"
    by (simp add: thresholds_ordered_def ordered_data_def)
  show "write_rule rule_table ''create'' ''r2'' ordered_data
        = (Inl (ImproperlyConfigured ''pass_threshold''), rule_table)"
    by (simp add: write_rule_def run_validation_raises Let_def)
qed

end
